theory Spec2Isabelle
  imports Complex_Main "HOL-Library.AList"
begin

section \<open>Data model of the review-moderation bot (main.py)\<close>

text \<open>
  A Python \<open>str\<close> is a sequence of code points and \<open>len\<close> counts them, so a string is
  modelled as the list of its code points.
\<close>

type_synonym pystr = "nat list"

definition str_of :: "string \<Rightarrow> pystr" where
  "str_of s = map of_char s"

text \<open>The entries of \<open>bot_data['pending_reviews']\<close> (main.py, lines 160-166).\<close>

record review =
  user_id :: int
  username :: "pystr option"
  first_name :: pystr
  review_text :: pystr
  photo_file_id :: "pystr option"

text \<open>The entries of \<open>bot_data['groups']\<close> (line 429).\<close>

record group =
  gid :: int
  title :: pystr

record settings =
  reviews_locked :: bool
  review_timeout_seconds :: int

text \<open>
  The document \<open>bot_data\<close> (lines 28-45). \<open>pending_reviews\<close> is a Python dict whose items
  are iterated in insertion order (line 191), so it is an association list: assignment is
  \<open>AList.update\<close> (an existing key keeps its place, a new key goes last), \<open>pop\<close> is
  \<open>AList.delete\<close>, \<open>get\<close> is \<open>map_of\<close>. \<open>user_last_review_time\<close> is only read and
  written by key; its key \<open>str(user_id)\<close> is the decimal rendering of the identifier,
  which is injective, so the table is keyed by the identifier itself. Timestamps are
  seconds since the epoch, taken as exact reals.
\<close>

record bot_data =
  pending_reviews :: "(int \<times> review) list"
  groups :: "group list"
  main_group_id :: "int option"
  settings :: settings
  user_last_review_time :: "int \<rightharpoonup> real"

text \<open>The defaults of \<open>load_data\<close> for a missing or corrupt file (lines 32-42).\<close>

definition default_data :: bot_data where
  "default_data =
     \<lparr>pending_reviews = [], groups = [], main_group_id = None,
      settings = \<lparr>reviews_locked = False, review_timeout_seconds = 0\<rparr>,
      user_last_review_time = Map.empty\<rparr>"

text \<open>
  The conversation state of aiogram's FSM: \<open>ReviewState.waiting_for_review\<close> and
  \<open>AdminState.waiting_for_rejection_reason\<close> (lines 56-61); no state (\<open>None\<close>) is idle.
  The FSM data dict only ever holds the key \<open>review_id_to_reject\<close> (line 281).
\<close>

datatype conv_state = waiting_for_review | waiting_for_rejection_reason

record fsm_context =
  fsm_state :: "conv_state option"
  review_id_to_reject :: "int option"

definition idle :: fsm_context where
  "idle = \<lparr>fsm_state = None, review_id_to_reject = None\<rparr>"

subsection \<open>Incoming updates\<close>

record user =
  uid :: int
  u_username :: "pystr option"
  u_first_name :: pystr

text \<open>\<open>photo\<close> lists the file identifiers of the photo sizes; it is empty without a photo.\<close>

record message =
  message_id :: int
  chat_id :: int
  from_user :: user
  msg_text :: "pystr option"
  caption :: "pystr option"
  photo :: "pystr list"

text \<open>
  The payload of a button press, decoded: one constructor per literal or prefix the
  handlers' filters match, \<open>_n\<close> marking a numeric suffix (\<open>final_lock\<close> and \<open>final_unlock\<close> are the two payloads of
  line 413).
\<close>

datatype callback_data =
    main_menu | admin_panel | leave_review | admin_moderate_reviews
  | review_n int | approve_n int | reject_n int
  | reject_final_noreason_n int | reject_final_reason_n int
  | admin_my_groups | group_n int | confirm_delete_n int | delete_final_n int | setmain_n int
  | admin_restrictions | restrictions_timeout | set_timeout_n int
  | confirm_lock | confirm_unlock | final_lock | final_unlock

record callback_query =
  cb_from :: user
  cb_chat_id :: int
  cb_message_photo :: bool
  cb_data :: callback_data

datatype chat_type = PRIVATE | GROUP | SUPERGROUP | CHANNEL

datatype member_status = creator | administrator | member | restricted | left | kicked

record chat_member_updated =
  upd_chat_type :: chat_type
  upd_chat_id :: int
  upd_chat_title :: pystr
  new_status :: member_status

subsection \<open>Outgoing calls\<close>

text \<open>An exception is a \<open>TelegramBadRequest\<close> or anything else.\<close>

datatype exn = TelegramBadRequest | OtherException

text \<open>The result of \<open>humanize_time\<close> (lines 64-74), one constructor per return.\<close>

datatype duration =
  Disabled | OneDay | TwoDays | OneWeek | Days int | Hours int | Minutes int

definition humanize_time :: "int \<Rightarrow> duration" where
  "humanize_time seconds =
     (if seconds = 0 then Disabled
      else if seconds = 86400 then OneDay
      else if seconds = 172800 then TwoDays
      else if seconds = 604800 then OneWeek
      else let days = seconds div 86400;
               hours = (seconds mod 86400) div 3600;
               minutes = (seconds mod 3600) div 60
           in if days > 0 then Days days
              else if hours > 0 then Hours hours
              else Minutes minutes)"

text \<open>
  Every text the bot sends, one constructor per string literal of the source;
  \<open>NoText\<close> is the empty \<open>callback.answer()\<close> of line 218.
\<close>

datatype msg =
    Greeting | GreetingMenu | NoAccess | AdminPanelText
  | ReviewsLocked | CooldownWait duration | ReviewPrompt
  | ErrNoCaption | ErrLength | NewReviewNotice "pystr option" | ThanksSubmitted
  | PendingListHeader | NothingToModerate | AlreadyProcessed | ReviewCard review
  | NoMainGroup | Approved | ApprovedPublished | Forwarded | ForwardError exn
  | HowToReject | AlreadyHandled | RejectedNotice | RejectedAlert
  | AskReason | AlreadyDone | RejectedWithReason "pystr option" | ReasonSent
  | NoGroups | MyGroups | GroupNotFound | GroupCard pystr
  | ConfirmLeave | LeftGroup | LeaveError exn | AlreadyMain | MainChanged
  | RestrictionsText | ChooseTimeout | TimeoutSet duration
  | ConfirmLockText bool | LockChanged bool
  | AddedToGroup pystr | RemovedFromGroup pystr
  | NoText

datatype button = Btn callback_data | UrlBtn

text \<open>The calls to the messaging platform; button labels are left out of keyboards.\<close>

datatype action =
    send_message int msg
  | answer int msg "button list"
  | answer_photo int pystr msg "button list"
  | edit_text msg "button list"
  | delete_message
  | callback_answer msg
  | forward_message int int int
  | leave_chat int
  | get_chat int
  | export_chat_invite_link int

subsection \<open>The state handlers run in\<close>

text \<open>
  \<open>bot_data\<close> is the in-memory document, \<open>saved\<close> what \<open>save_data\<close> last wrote,
  \<open>fsm\<close> the FSM storage, keyed by chat and user, and \<open>sent\<close> the calls that went
  through, oldest first.
\<close>

record system =
  bot_data :: bot_data
  saved :: "bot_data option"
  fsm :: "int \<times> int \<Rightarrow> fsm_context"
  sent :: "action list"

text \<open>
  What a handler reads from outside: the configured administrator, the clock, whether
  a call to the platform goes through (\<open>None\<close>) or raises, and whether the chat that
  \<open>get_chat\<close> returns carries an invite link.
\<close>

record env =
  ADMIN_ID :: int
  now :: real
  api :: "action \<Rightarrow> exn option"
  chat_invite_link :: "int \<Rightarrow> bool"

text \<open>A statement: it ends normally (\<open>None\<close>) or raises, and leaves a state either way.\<close>

type_synonym step = "system \<Rightarrow> exn option \<times> system"

definition skip :: step where
  "skip s = (None, s)"

fun seq :: "step list \<Rightarrow> step" where
  "seq [] s = (None, s)"
| "seq (f # fs) s = (case f s of (None, s') \<Rightarrow> seq fs s' | (Some x, s') \<Rightarrow> (Some x, s'))"

definition call :: "env \<Rightarrow> action \<Rightarrow> step" where
  "call e a s = (case api e a of None \<Rightarrow> (None, s\<lparr>sent := sent s @ [a]\<rparr>)
                               | Some x \<Rightarrow> (Some x, s))"

text \<open>A statement that depends on the state it starts in.\<close>

definition get :: "(system \<Rightarrow> step) \<Rightarrow> step" where
  "get f s = f s s"

text \<open>\<open>with suppress(TelegramBadRequest): ...\<close>\<close>

definition suppress :: "step \<Rightarrow> step" where
  "suppress f s = (case f s of (Some TelegramBadRequest, s') \<Rightarrow> (None, s') | r \<Rightarrow> r)"

text \<open>\<open>try: ... except Exception as e: ...\<close>\<close>

definition try_except :: "step \<Rightarrow> (exn \<Rightarrow> step) \<Rightarrow> step" where
  "try_except body handler s = (case body s of (Some x, s') \<Rightarrow> handler x s' | r \<Rightarrow> r)"

definition modify :: "(bot_data \<Rightarrow> bot_data) \<Rightarrow> step" where
  "modify f s = (None, s\<lparr>bot_data := f (bot_data s)\<rparr>)"

definition save_data :: step where
  "save_data s = (None, s\<lparr>saved := Some (bot_data s)\<rparr>)"

definition state_clear :: "int \<times> int \<Rightarrow> step" where
  "state_clear k s = (None, s\<lparr>fsm := (fsm s)(k := idle)\<rparr>)"

definition set_state :: "int \<times> int \<Rightarrow> conv_state \<Rightarrow> step" where
  "set_state k st s = (None, s\<lparr>fsm := (fsm s)(k := (fsm s k)\<lparr>fsm_state := Some st\<rparr>)\<rparr>)"

definition update_data :: "int \<times> int \<Rightarrow> int \<Rightarrow> step" where
  "update_data k rid s =
     (None, s\<lparr>fsm := (fsm s)(k := (fsm s k)\<lparr>review_id_to_reject := Some rid\<rparr>)\<rparr>)"

definition cb_key :: "callback_query \<Rightarrow> int \<times> int" where
  "cb_key cb = (cb_chat_id cb, uid (cb_from cb))"

definition msg_key :: "message \<Rightarrow> int \<times> int" where
  "msg_key m = (chat_id m, uid (from_user m))"


text \<open>Python's truth value of an optional string, and \<open>int\<close> of a float.\<close>

definition truthy :: "pystr option \<Rightarrow> bool" where
  "truthy t = (case t of None \<Rightarrow> False | Some x \<Rightarrow> x \<noteq> [])"

definition py_int :: "real \<Rightarrow> int" where
  "py_int x = (if 0 \<le> x then \<lfloor>x\<rfloor> else \<lceil>x\<rceil>)"

section \<open>The handlers\<close>

definition get_main_menu_keyboard :: "button list" where
  "get_main_menu_keyboard = [Btn leave_review]"

definition get_admin_panel_keyboard :: "button list" where
  "get_admin_panel_keyboard =
     [Btn admin_moderate_reviews, Btn admin_my_groups, Btn admin_restrictions]"

definition get_back_keyboard :: "callback_data \<Rightarrow> button list" where
  "get_back_keyboard back_to = [Btn back_to]"

definition cmd_start :: "env \<Rightarrow> message \<Rightarrow> step" where
  "cmd_start e m =
     seq [state_clear (msg_key m),
          call e (answer (chat_id m) Greeting get_main_menu_keyboard)]"

definition cmd_admin :: "env \<Rightarrow> message \<Rightarrow> step" where
  "cmd_admin e m =
     (if uid (from_user m) \<noteq> ADMIN_ID e then call e (answer (chat_id m) NoAccess [])
      else seq [state_clear (msg_key m),
                call e (answer (chat_id m) AdminPanelText get_admin_panel_keyboard)])"

definition back_to_main_menu :: "env \<Rightarrow> callback_query \<Rightarrow> step" where
  "back_to_main_menu e cb =
     seq [state_clear (cb_key cb), call e (edit_text GreetingMenu get_main_menu_keyboard)]"

definition back_to_admin_panel :: "env \<Rightarrow> callback_query \<Rightarrow> step" where
  "back_to_admin_panel e cb =
     seq [state_clear (cb_key cb), call e (edit_text AdminPanelText get_admin_panel_keyboard)]"

text \<open>Lines 127-149. A stored timestamp of 0 is false in Python, as a missing one is.\<close>

definition start_review :: "env \<Rightarrow> callback_query \<Rightarrow> step" where
  "start_review e cb s =
     (let user_id = uid (cb_from cb) in
      if reviews_locked (settings (bot_data s)) then call e (callback_answer ReviewsLocked) s
      else
        let timeout_seconds = review_timeout_seconds (settings (bot_data s));
            last_review_timestamp =
              (if user_id \<noteq> ADMIN_ID e \<and> timeout_seconds > 0
               then user_last_review_time (bot_data s) user_id else None);
            enter = seq [call e (edit_text ReviewPrompt (get_back_keyboard main_menu)),
                         set_state (cb_key cb) waiting_for_review]
        in case last_review_timestamp of
             None \<Rightarrow> enter s
           | Some t \<Rightarrow>
               if t = 0 then enter s
               else
                 let elapsed = now e - t in
                 if elapsed < real_of_int timeout_seconds
                 then call e (callback_answer (CooldownWait (humanize_time
                        (py_int (real_of_int timeout_seconds - elapsed))))) s
                 else enter s)"

text \<open>Lines 152-174.\<close>

definition new_review :: "message \<Rightarrow> pystr \<Rightarrow> review" where
  "new_review m t =
     \<lparr>user_id = uid (from_user m), username = u_username (from_user m),
      first_name = u_first_name (from_user m), review_text = t,
      photo_file_id = (if photo m \<noteq> [] then Some (last (photo m)) else None)\<rparr>"

definition process_review :: "env \<Rightarrow> message \<Rightarrow> step" where
  "process_review e m s =
     (let text = (if photo m \<noteq> [] then caption m else msg_text m) in
      case text of
        None \<Rightarrow> call e (answer (chat_id m) ErrNoCaption []) s
      | Some t \<Rightarrow>
          if t = [] then call e (answer (chat_id m) ErrNoCaption []) s
          else if \<not> (10 \<le> length t \<and> length t \<le> 50)
          then call e (answer (chat_id m) ErrLength []) s
          else
            seq [modify (\<lambda>d. d\<lparr>pending_reviews :=
                          AList.update (message_id m) (new_review m t) (pending_reviews d)\<rparr>),
                 modify (\<lambda>d. d\<lparr>user_last_review_time :=
                          (user_last_review_time d)(uid (from_user m) \<mapsto> now e)\<rparr>),
                 save_data,
                 state_clear (msg_key m),
                 call e (send_message (ADMIN_ID e) (NewReviewNotice (u_username (from_user m)))),
                 call e (answer (chat_id m) ThanksSubmitted []),
                 cmd_start e m] s)"

text \<open>
  Lines 177-194. Whether the header is edited into the pressed message or into the one
  just sent in its place (line 183) is not distinguished.
\<close>

definition show_pending_reviews :: "env \<Rightarrow> callback_query \<Rightarrow> step" where
  "show_pending_reviews e cb =
     seq [state_clear (cb_key cb),
          (if cb_message_photo cb
           then seq [call e delete_message,
                     call e (answer (cb_chat_id cb) PendingListHeader [])]
           else skip),
          get (\<lambda>s. if pending_reviews (bot_data s) = []
                    then seq [call e (callback_answer NothingToModerate),
                              call e (edit_text AdminPanelText get_admin_panel_keyboard)]
                    else call e (edit_text PendingListHeader
                           (map (\<lambda>p. Btn (review_n (fst p))) (pending_reviews (bot_data s))
                            @ [Btn admin_panel])))]"

text \<open>Lines 197-218.\<close>

definition moderate_review :: "env \<Rightarrow> callback_query \<Rightarrow> int \<Rightarrow> step" where
  "moderate_review e cb review_id =
     seq [state_clear (cb_key cb),
          get (\<lambda>s. case map_of (pending_reviews (bot_data s)) review_id of
                  None \<Rightarrow> seq [call e (callback_answer AlreadyProcessed),
                                 show_pending_reviews e cb]
                | Some review \<Rightarrow>
                    let keyboard = [Btn (approve_n review_id), Btn (reject_n review_id),
                                    Btn admin_moderate_reviews]
                    in seq [(case photo_file_id review of
                               None \<Rightarrow> call e (edit_text (ReviewCard review) keyboard)
                             | Some f \<Rightarrow>
                                 if f = [] then call e (edit_text (ReviewCard review) keyboard)
                                 else seq [call e delete_message,
                                           call e (answer_photo (cb_chat_id cb) f
                                                     (ReviewCard review) keyboard)]),
                            call e (callback_answer NoText)])]"


text \<open>
  Lines 221-242. \<open>not bot_data['main_group_id']\<close> holds for \<open>None\<close> and for 0. The
  \<open>try\<close> block covers the forward, the notice to the submitter and the alert; the
  \<open>except\<close> branch alerts first and re-inserts after.
\<close>

definition approve_review :: "env \<Rightarrow> callback_query \<Rightarrow> int \<Rightarrow> step" where
  "approve_review e cb review_id =
     seq [state_clear (cb_key cb),
          get (\<lambda>s. case map_of (pending_reviews (bot_data s)) review_id of
                  None \<Rightarrow> call e (callback_answer AlreadyProcessed)
                | Some review \<Rightarrow>
                    seq [modify (\<lambda>d. d\<lparr>pending_reviews :=
                                   AList.delete review_id (pending_reviews d)\<rparr>),
                         get (\<lambda>s'. case main_group_id (bot_data s') of
                                  None \<Rightarrow>
                                    seq [call e (callback_answer NoMainGroup),
                                         call e (send_message (user_id review) Approved)]
                                | Some g \<Rightarrow>
                                    if g = 0
                                    then seq [call e (callback_answer NoMainGroup),
                                              call e (send_message (user_id review) Approved)]
                                    else try_except
                                           (seq [call e (forward_message g (user_id review)
                                                           review_id),
                                                 call e (send_message (user_id review)
                                                           ApprovedPublished),
                                                 call e (callback_answer Forwarded)])
                                           (\<lambda>x. seq [call e (callback_answer (ForwardError x)),
                                                      modify (\<lambda>d. d\<lparr>pending_reviews :=
                                                        AList.update review_id review
                                                          (pending_reviews d)\<rparr>)])),
                         save_data,
                         show_pending_reviews e cb])]"

text \<open>Lines 245-261.\<close>

definition reject_review_confirm :: "env \<Rightarrow> callback_query \<Rightarrow> int \<Rightarrow> step" where
  "reject_review_confirm e cb review_id =
     (let buttons = [Btn (reject_final_noreason_n review_id),
                     Btn (reject_final_reason_n review_id), Btn (review_n review_id)]
      in seq [state_clear (cb_key cb),
              (if cb_message_photo cb
               then seq [call e delete_message,
                         call e (answer (cb_chat_id cb) HowToReject buttons)]
               else call e (edit_text HowToReject buttons))])"

text \<open>Lines 264-274.\<close>

definition reject_final_noreason :: "env \<Rightarrow> callback_query \<Rightarrow> int \<Rightarrow> step" where
  "reject_final_noreason e cb review_id =
     seq [state_clear (cb_key cb),
          get (\<lambda>s. case map_of (pending_reviews (bot_data s)) review_id of
                  None \<Rightarrow> call e (callback_answer AlreadyHandled)
                | Some review \<Rightarrow>
                    seq [modify (\<lambda>d. d\<lparr>pending_reviews :=
                                   AList.delete review_id (pending_reviews d)\<rparr>),
                         suppress (call e (send_message (user_id review) RejectedNotice)),
                         save_data,
                         call e (callback_answer RejectedAlert),
                         show_pending_reviews e cb])]"

text \<open>Lines 277-284.\<close>

definition reject_final_reason_prompt :: "env \<Rightarrow> callback_query \<Rightarrow> int \<Rightarrow> step" where
  "reject_final_reason_prompt e cb review_id =
     seq [set_state (cb_key cb) waiting_for_rejection_reason,
          update_data (cb_key cb) review_id,
          call e (edit_text AskReason [Btn (review_n review_id)])]"

text \<open>
  Lines 287-299. \<open>data.get('review_id_to_reject')\<close> may be \<open>None\<close>, and popping the key
  \<open>None\<close> finds nothing.
\<close>

definition process_rejection_reason :: "env \<Rightarrow> message \<Rightarrow> step" where
  "process_rejection_reason e m s =
     (let review_id = review_id_to_reject (fsm s (msg_key m));
          reason = msg_text m;
          review = (case review_id of None \<Rightarrow> None
                    | Some i \<Rightarrow> map_of (pending_reviews (bot_data s)) i)
      in seq [(case review_id of None \<Rightarrow> skip
               | Some i \<Rightarrow> modify (\<lambda>d. d\<lparr>pending_reviews :=
                                     AList.delete i (pending_reviews d)\<rparr>)),
              state_clear (msg_key m),
              (case review of
                 None \<Rightarrow> call e (answer (chat_id m) AlreadyDone [])
               | Some r \<Rightarrow>
                   seq [suppress (call e (send_message (user_id r) (RejectedWithReason reason))),
                        save_data,
                        call e (answer (chat_id m) ReasonSent []),
                        cmd_admin e m])] s)"

text \<open>Lines 302-310.\<close>

definition show_my_groups :: "env \<Rightarrow> callback_query \<Rightarrow> step" where
  "show_my_groups e cb s =
     (if groups (bot_data s) = []
      then call e (edit_text NoGroups (get_back_keyboard admin_panel)) s
      else call e (edit_text MyGroups
             (map (\<lambda>g. Btn (group_n (gid g))) (groups (bot_data s)) @ [Btn admin_panel])) s)"

text \<open>Lines 313-332.\<close>

definition group_options :: "env \<Rightarrow> callback_query \<Rightarrow> int \<Rightarrow> step" where
  "group_options e cb group_id s =
     (case find (\<lambda>g. gid g = group_id) (groups (bot_data s)) of
        None \<Rightarrow> call e (callback_answer GroupNotFound) s
      | Some g \<Rightarrow>
          let (invite_link, s1) =
                (case call e (get_chat group_id) s of
                   (Some x, s') \<Rightarrow> (False, s')
                 | (None, s') \<Rightarrow>
                     if chat_invite_link e group_id then (True, s')
                     else (case call e (export_chat_invite_link group_id) s' of
                             (Some x, s'') \<Rightarrow> (False, s'')
                           | (None, s'') \<Rightarrow> (True, s'')))
          in call e (edit_text (GroupCard (title g))
                      ((if invite_link then [UrlBtn] else [])
                       @ [Btn (setmain_n group_id), Btn (confirm_delete_n group_id),
                          Btn admin_my_groups])) s1)"

text \<open>Lines 335-341.\<close>

definition confirm_delete_group :: "env \<Rightarrow> callback_query \<Rightarrow> int \<Rightarrow> step" where
  "confirm_delete_group e cb group_id =
     call e (edit_text ConfirmLeave [Btn (delete_final_n group_id), Btn (group_n group_id)])"

text \<open>Lines 344-352.\<close>

definition delete_and_leave_group :: "env \<Rightarrow> callback_query \<Rightarrow> int \<Rightarrow> step" where
  "delete_and_leave_group e cb group_id =
     seq [try_except (seq [call e (leave_chat group_id), call e (callback_answer LeftGroup)])
                     (\<lambda>x. call e (callback_answer (LeaveError x))),
          show_my_groups e cb]"

text \<open>Lines 355-363.\<close>

definition set_main_group :: "env \<Rightarrow> callback_query \<Rightarrow> int \<Rightarrow> step" where
  "set_main_group e cb group_id s =
     (if main_group_id (bot_data s) = Some group_id
      then call e (callback_answer AlreadyMain) s
      else seq [modify (\<lambda>d. d\<lparr>main_group_id := Some group_id\<rparr>),
                save_data,
                call e (callback_answer MainChanged),
                show_my_groups e cb] s)"

text \<open>Lines 366-379.\<close>

definition admin_restrictions_menu :: "env \<Rightarrow> callback_query \<Rightarrow> step" where
  "admin_restrictions_menu e cb s =
     (let lock_callback = (if reviews_locked (settings (bot_data s))
                           then confirm_unlock else confirm_lock)
      in call e (edit_text RestrictionsText
                   [Btn restrictions_timeout, Btn lock_callback, Btn admin_panel]) s)"

text \<open>Lines 382-392.\<close>

definition restrictions_timeout_menu :: "env \<Rightarrow> callback_query \<Rightarrow> step" where
  "restrictions_timeout_menu e cb =
     call e (edit_text ChooseTimeout
               [Btn (set_timeout_n 86400), Btn (set_timeout_n 172800),
                Btn (set_timeout_n 604800), Btn (set_timeout_n 0), Btn admin_restrictions])"

text \<open>Lines 395-401.\<close>

definition set_timeout :: "env \<Rightarrow> callback_query \<Rightarrow> int \<Rightarrow> step" where
  "set_timeout e cb seconds =
     seq [modify (\<lambda>d. d\<lparr>settings := (settings d)\<lparr>review_timeout_seconds := seconds\<rparr>\<rparr>),
          save_data,
          call e (callback_answer (TimeoutSet (humanize_time seconds))),
          admin_restrictions_menu e cb]"

text \<open>Lines 404-410: the confirmation screen; \<open>True\<close> stands for locking.\<close>

definition confirm_lock_unlock :: "env \<Rightarrow> callback_query \<Rightarrow> step" where
  "confirm_lock_unlock e cb =
     (let locking = (cb_data cb = confirm_lock)
      in call e (edit_text (ConfirmLockText locking)
                   [Btn (if locking then final_lock else final_unlock),
                    Btn admin_restrictions]))"

text \<open>Lines 413-419.\<close>

definition final_lock_unlock :: "env \<Rightarrow> callback_query \<Rightarrow> step" where
  "final_lock_unlock e cb =
     (let is_locking = (cb_data cb = final_lock)
      in seq [modify (\<lambda>d. d\<lparr>settings := (settings d)\<lparr>reviews_locked := is_locking\<rparr>\<rparr>),
              save_data,
              call e (callback_answer (LockChanged is_locking)),
              admin_restrictions_menu e cb])"

text \<open>Lines 422-436.\<close>

definition on_chat_member_updated :: "env \<Rightarrow> chat_member_updated \<Rightarrow> step" where
  "on_chat_member_updated e u s =
     (if upd_chat_type u \<notin> {GROUP, SUPERGROUP} then (None, s)
      else
        let chat_id = upd_chat_id u; title = upd_chat_title u;
            is_in_list = (\<exists>g \<in> set (groups (bot_data s)). gid g = chat_id)
        in seq [(if new_status u \<in> {administrator, member} \<and> \<not> is_in_list
                 then seq [modify (\<lambda>d. d\<lparr>groups := groups d
                                      @ [\<lparr>gid = chat_id, title = title\<rparr>]\<rparr>),
                           call e (send_message (ADMIN_ID e) (AddedToGroup title))]
                 else if new_status u \<in> {left, kicked} \<and> is_in_list
                 then seq [modify (\<lambda>d. d\<lparr>groups := filter (\<lambda>g. gid g \<noteq> chat_id) (groups d)\<rparr>),
                           modify (\<lambda>d. if main_group_id d = Some chat_id
                                        then d\<lparr>main_group_id := None\<rparr> else d),
                           call e (send_message (ADMIN_ID e) (RemovedFromGroup title))]
                 else skip),
                save_data] s)"


section \<open>The dispatcher\<close>

datatype update =
    Message message
  | CallbackQuery callback_query
  | MyChatMember chat_member_updated

text \<open>
  aiogram's \<open>Command\<close> filter, without bot mentions: the first word of the text (or of
  the caption) is a slash followed by the command. 47 is the slash, 32 the space.
\<close>

definition is_command :: "pystr \<Rightarrow> message \<Rightarrow> bool" where
  "is_command name m =
     (case (if truthy (msg_text m) then msg_text m else caption m) of
        None \<Rightarrow> False
      | Some t \<Rightarrow> takeWhile (\<lambda>c. c \<noteq> 32) t = 47 # name)"

text \<open>
  Handlers are tried in the order they are registered, and the first whose filters pass
  runs: for messages lines 99, 106, 152 and 287; a message that passes none is dropped.
\<close>

definition on_message :: "env \<Rightarrow> message \<Rightarrow> step" where
  "on_message e m s =
     (if is_command (str_of ''start'') m then cmd_start e m s
      else if is_command (str_of ''admin'') m then cmd_admin e m s
      else if fsm_state (fsm s (msg_key m)) = Some waiting_for_review
              \<and> (truthy (msg_text m) \<or> photo m \<noteq> [])
      then process_review e m s
      else if fsm_state (fsm s (msg_key m)) = Some waiting_for_rejection_reason
              \<and> truthy (msg_text m)
      then process_rejection_reason e m s
      else (None, s))"

definition on_callback_query :: "env \<Rightarrow> callback_query \<Rightarrow> step" where
  "on_callback_query e cb =
     (case cb_data cb of
        main_menu \<Rightarrow> back_to_main_menu e cb
      | admin_panel \<Rightarrow> back_to_admin_panel e cb
      | leave_review \<Rightarrow> start_review e cb
      | admin_moderate_reviews \<Rightarrow> show_pending_reviews e cb
      | review_n i \<Rightarrow> moderate_review e cb i
      | approve_n i \<Rightarrow> approve_review e cb i
      | reject_n i \<Rightarrow> reject_review_confirm e cb i
      | reject_final_noreason_n i \<Rightarrow> reject_final_noreason e cb i
      | reject_final_reason_n i \<Rightarrow> reject_final_reason_prompt e cb i
      | admin_my_groups \<Rightarrow> show_my_groups e cb
      | group_n i \<Rightarrow> group_options e cb i
      | confirm_delete_n i \<Rightarrow> confirm_delete_group e cb i
      | delete_final_n i \<Rightarrow> delete_and_leave_group e cb i
      | setmain_n i \<Rightarrow> set_main_group e cb i
      | admin_restrictions \<Rightarrow> admin_restrictions_menu e cb
      | restrictions_timeout \<Rightarrow> restrictions_timeout_menu e cb
      | set_timeout_n i \<Rightarrow> set_timeout e cb i
      | confirm_lock \<Rightarrow> confirm_lock_unlock e cb
      | confirm_unlock \<Rightarrow> confirm_lock_unlock e cb
      | final_lock \<Rightarrow> final_lock_unlock e cb
      | final_unlock \<Rightarrow> final_lock_unlock e cb)"

text \<open>
  One update: the handler runs, and an exception it raises ends it there (the dispatcher
  logs it and goes on polling), so the state it left is the state after the update.
\<close>

definition handle :: "env \<Rightarrow> update \<Rightarrow> system \<Rightarrow> system" where
  "handle e u s =
     snd (case u of
            Message m \<Rightarrow> on_message e m s
          | CallbackQuery cb \<Rightarrow> on_callback_query e cb s
          | MyChatMember c \<Rightarrow> on_chat_member_updated e c s)"

fun run :: "(env \<times> update) list \<Rightarrow> system \<Rightarrow> system" where
  "run [] s = s"
| "run ((e, u) # us) s = run us (handle e u s)"

text \<open>The process after start-up: \<open>bot_data = load_data()\<close>, every conversation idle.\<close>

definition init :: "bot_data \<Rightarrow> system" where
  "init d = \<lparr>bot_data = d, saved = None, fsm = (\<lambda>k. idle), sent = []\<rparr>"

section \<open>Concrete scenarios\<close>

text \<open>The users, environments and updates the examples below run on.\<close>

definition alice :: user where
  "alice = \<lparr>uid = 7, u_username = Some (str_of ''alice''), u_first_name = str_of ''Alice''\<rparr>"

definition bob :: user where
  "bob = \<lparr>uid = 8, u_username = None, u_first_name = str_of ''Bob''\<rparr>"

definition boss :: user where
  "boss = \<lparr>uid = 1, u_username = Some (str_of ''boss''), u_first_name = str_of ''Boss''\<rparr>"

definition env_at :: "real \<Rightarrow> (action \<Rightarrow> exn option) \<Rightarrow> env" where
  "env_at t a = \<lparr>ADMIN_ID = 1, now = t, api = a, chat_invite_link = (\<lambda>g. False)\<rparr>"

definition all_ok :: "action \<Rightarrow> exn option" where
  "all_ok a = None"

definition text_msg :: "int \<Rightarrow> int \<Rightarrow> user \<Rightarrow> string \<Rightarrow> message" where
  "text_msg i c u t =
     \<lparr>message_id = i, chat_id = c, from_user = u, msg_text = Some (str_of t),
      caption = None, photo = []\<rparr>"

definition press :: "int \<Rightarrow> user \<Rightarrow> callback_data \<Rightarrow> callback_query" where
  "press c u d = \<lparr>cb_from = u, cb_chat_id = c, cb_message_photo = False, cb_data = d\<rparr>"

definition alice_review :: review where
  "alice_review = new_review (text_msg 5 7 alice ''Great service, loved it!'')
                    (str_of ''Great service, loved it!'')"

definition notice_fails :: "action \<Rightarrow> exn option" where
  "notice_fails a = (if a = send_message 7 ApprovedPublished then Some OtherException else None)"

definition with_pending :: "(int \<times> review) list \<Rightarrow> int option \<Rightarrow> system" where
  "with_pending ps g = init (default_data\<lparr>pending_reviews := ps, main_group_id := g\<rparr>)"


definition all_fail :: "action \<Rightarrow> exn option" where
  "all_fail a = Some OtherException"

definition member_upd :: "chat_type \<Rightarrow> int \<Rightarrow> member_status \<Rightarrow> chat_member_updated" where
  "member_upd ty c st =
     \<lparr>upd_chat_type = ty, upd_chat_id = c, upd_chat_title = str_of ''News'', new_status = st\<rparr>"

text \<open>The bot is in group -100, which is the publish target.\<close>

definition in_news :: system where
  "in_news = init (default_data\<lparr>groups := [\<lparr>gid = -100, title = str_of ''News''\<rparr>],
                                 main_group_id := Some (-100)\<rparr>)"

text \<open>
  Review \<open>i\<close> of Alice is pending and the administrator, in chat 1, has been asked for
  the reason to reject it.
\<close>

definition rejecting :: "int \<Rightarrow> system" where
  "rejecting i =
     (with_pending [(i, alice_review)] None)
       \<lparr>fsm := (\<lambda>k. idle)((1, 1) :=
           \<lparr>fsm_state = Some waiting_for_rejection_reason, review_id_to_reject = Some i\<rparr>)\<rparr>"

section \<open>Running a handler step by step\<close>

text \<open>
  A sequence is run from its head: a call splits on whether it goes through, every other
  statement passes its state on.
\<close>

declare seq.simps(2) [simp del]

lemma seq_single: "seq [f] s = f s"
  by (cases "f s") (auto simp: seq.simps(2) split: option.splits)
lemma seq_call: "seq (call e a # f # fs) s =
   (case api e a of None \<Rightarrow> seq (f # fs) (s\<lparr>sent := sent s @ [a]\<rparr>) | Some x \<Rightarrow> (Some x, s))"
  by (simp add: seq.simps(2) call_def split: option.splits)
lemma seq_modify: "seq (modify g # f # fs) s = seq (f # fs) (s\<lparr>bot_data := g (bot_data s)\<rparr>)"
  by (simp add: seq.simps(2) modify_def)
lemma seq_save_data: "seq (save_data # f # fs) s = seq (f # fs) (s\<lparr>saved := Some (bot_data s)\<rparr>)"
  by (simp add: seq.simps(2) save_data_def)
lemma seq_state_clear: "seq (state_clear k # f # fs) s = seq (f # fs) (s\<lparr>fsm := (fsm s)(k := idle)\<rparr>)"
  by (simp add: seq.simps(2) state_clear_def)
lemma seq_set_state: "seq (set_state k st # f # fs) s =
   seq (f # fs) (s\<lparr>fsm := (fsm s)(k := (fsm s k)\<lparr>fsm_state := Some st\<rparr>)\<rparr>)"
  by (simp add: seq.simps(2) set_state_def)
lemma seq_update_data: "seq (update_data k i # f # fs) s =
   seq (f # fs) (s\<lparr>fsm := (fsm s)(k := (fsm s k)\<lparr>review_id_to_reject := Some i\<rparr>)\<rparr>)"
  by (simp add: seq.simps(2) update_data_def)
lemma seq_skip: "seq (skip # fs) s = seq fs s"
  by (simp add: seq.simps(2) skip_def)
lemma seq_append: "seq (fs @ gs) s =
   (case seq fs s of (None, s') \<Rightarrow> seq gs s' | (Some x, s') \<Rightarrow> (Some x, s'))"
  by (induction fs arbitrary: s) (auto simp: seq.simps(2) split: prod.splits option.splits)
lemma seq_seq: "seq (seq fs # g # gs) s = seq (fs @ g # gs) s"
  by (simp add: seq_append seq.simps(2))
lemma seq_if: "seq ((if c then f else g) # h # fs) s = (if c then seq (f # h # fs) s else seq (g # h # fs) s)"
  by simp
lemma seq_get: "seq (get F # f # fs) s = seq (F s # f # fs) s"
  by (simp add: seq.simps(2) get_def)
lemma seq_try_except: "seq (try_except b h # f # fs) s =
   (case b s of (None, s') \<Rightarrow> seq (f # fs) s' | (Some x, s') \<Rightarrow> seq (h x # f # fs) s')"
  by (simp add: seq.simps(2) try_except_def split: prod.splits option.splits)
lemma seq_suppress: "seq (suppress b # f # fs) s =
   (case b s of (None, s') \<Rightarrow> seq (f # fs) s' | (Some TelegramBadRequest, s') \<Rightarrow> seq (f # fs) s'
      | (Some OtherException, s') \<Rightarrow> (Some OtherException, s'))"
  by (simp add: seq.simps(2) suppress_def split: prod.splits option.splits exn.splits)

lemmas run_simps = seq_single seq_call seq_modify seq_save_data seq_state_clear seq_set_state
  seq_update_data seq_skip seq_seq seq_if seq_get seq_try_except seq_suppress
  call_def modify_def save_data_def state_clear_def set_state_def update_data_def skip_def get_def
  try_except_def suppress_def

section \<open>What the menu handlers leave alone\<close>

text \<open>
  The handlers that other handlers end with only talk to the platform and, some of them,
  clear the conversation state.
\<close>

lemma show_pending_reviews_frame:
  "bot_data (snd (show_pending_reviews e cb s)) = bot_data s \<and>
   saved (snd (show_pending_reviews e cb s)) = saved s \<and>
   fsm (snd (show_pending_reviews e cb s)) = (fsm s)(cb_key cb := idle)"
  by (simp add: show_pending_reviews_def run_simps split: option.splits)

lemma show_my_groups_frame:
  "bot_data (snd (show_my_groups e cb s)) = bot_data s \<and>
   saved (snd (show_my_groups e cb s)) = saved s \<and>
   fsm (snd (show_my_groups e cb s)) = fsm s"
  by (simp add: show_my_groups_def run_simps split: option.splits)

lemma admin_restrictions_menu_frame:
  "bot_data (snd (admin_restrictions_menu e cb s)) = bot_data s \<and>
   saved (snd (admin_restrictions_menu e cb s)) = saved s \<and>
   fsm (snd (admin_restrictions_menu e cb s)) = fsm s"
  by (simp add: admin_restrictions_menu_def run_simps split: option.splits)

lemma cmd_start_frame:
  "bot_data (snd (cmd_start e m s)) = bot_data s \<and>
   saved (snd (cmd_start e m s)) = saved s \<and>
   fsm (snd (cmd_start e m s)) = (fsm s)(msg_key m := idle)"
  by (simp add: cmd_start_def run_simps split: option.splits)

lemma cmd_admin_frame:
  "bot_data (snd (cmd_admin e m s)) = bot_data s \<and>
   saved (snd (cmd_admin e m s)) = saved s \<and>
   fsm (snd (cmd_admin e m s)) =
     (if uid (from_user m) = ADMIN_ID e then (fsm s)(msg_key m := idle) else fsm s)"
  by (simp add: cmd_admin_def run_simps split: option.splits)

lemma delete_absent: "map_of ps i = None \<Longrightarrow> AList.delete i ps = ps"
  by (induction ps) (auto split: if_splits)

lemma back_to_main_menu_frame:
  "bot_data (snd (back_to_main_menu e cb s)) = bot_data s \<and>
   fsm (snd (back_to_main_menu e cb s)) = (fsm s)(cb_key cb := idle)"
  by (simp add: back_to_main_menu_def run_simps split: option.splits)

lemma back_to_admin_panel_frame:
  "bot_data (snd (back_to_admin_panel e cb s)) = bot_data s \<and>
   fsm (snd (back_to_admin_panel e cb s)) = (fsm s)(cb_key cb := idle)"
  by (simp add: back_to_admin_panel_def run_simps split: option.splits)

lemma start_review_frame:
  "bot_data (snd (start_review e cb s)) = bot_data s \<and>
   (fsm (snd (start_review e cb s)) = fsm s \<or>
    \<not> reviews_locked (settings (bot_data s)) \<and>
    fsm (snd (start_review e cb s)) =
      (fsm s)(cb_key cb := (fsm s (cb_key cb))\<lparr>fsm_state := Some waiting_for_review\<rparr>))"
  by (simp add: start_review_def run_simps Let_def split: option.splits)

lemma moderate_review_frame:
  "bot_data (snd (moderate_review e cb i s)) = bot_data s \<and>
   fsm (snd (moderate_review e cb i s)) = (fsm s)(cb_key cb := idle)"
  by (simp add: moderate_review_def run_simps Let_def show_pending_reviews_frame
      split: option.splits)

lemma reject_review_confirm_frame:
  "bot_data (snd (reject_review_confirm e cb i s)) = bot_data s \<and>
   fsm (snd (reject_review_confirm e cb i s)) = (fsm s)(cb_key cb := idle)"
  by (simp add: reject_review_confirm_def run_simps Let_def split: option.splits)

lemma reject_final_reason_prompt_frame:
  "bot_data (snd (reject_final_reason_prompt e cb i s)) = bot_data s \<and>
   fsm (snd (reject_final_reason_prompt e cb i s)) =
     (fsm s)(cb_key cb := (fsm s (cb_key cb))
        \<lparr>fsm_state := Some waiting_for_rejection_reason, review_id_to_reject := Some i\<rparr>)"
  by (simp add: reject_final_reason_prompt_def run_simps split: option.splits)

lemma group_options_frame:
  "bot_data (snd (group_options e cb i s)) = bot_data s \<and>
   fsm (snd (group_options e cb i s)) = fsm s"
  by (simp add: group_options_def run_simps Let_def split: option.splits prod.splits)

lemma confirm_delete_group_frame:
  "bot_data (snd (confirm_delete_group e cb i s)) = bot_data s \<and>
   fsm (snd (confirm_delete_group e cb i s)) = fsm s"
  by (simp add: confirm_delete_group_def run_simps split: option.splits)

lemma restrictions_timeout_menu_frame:
  "bot_data (snd (restrictions_timeout_menu e cb s)) = bot_data s \<and>
   fsm (snd (restrictions_timeout_menu e cb s)) = fsm s"
  by (simp add: restrictions_timeout_menu_def run_simps split: option.splits)

lemma confirm_lock_unlock_frame:
  "bot_data (snd (confirm_lock_unlock e cb s)) = bot_data s \<and>
   saved (snd (confirm_lock_unlock e cb s)) = saved s \<and>
   fsm (snd (confirm_lock_unlock e cb s)) = fsm s"
  by (simp add: confirm_lock_unlock_def run_simps Let_def split: option.splits)

lemma set_main_group_effect:
  "bot_data (snd (set_main_group e cb i s)) = (bot_data s)\<lparr>main_group_id := Some i\<rparr> \<and>
   fsm (snd (set_main_group e cb i s)) = fsm s"
  by (simp add: set_main_group_def run_simps show_my_groups_frame split: option.splits)

lemma set_timeout_effect:
  "bot_data (snd (set_timeout e cb n s)) =
     (bot_data s)\<lparr>settings := (settings (bot_data s))\<lparr>review_timeout_seconds := n\<rparr>\<rparr> \<and>
   fsm (snd (set_timeout e cb n s)) = fsm s"
  by (simp add: set_timeout_def run_simps admin_restrictions_menu_frame split: option.splits)

lemma final_lock_unlock_effect:
  "bot_data (snd (final_lock_unlock e cb s)) =
     (bot_data s)\<lparr>settings := (settings (bot_data s))
        \<lparr>reviews_locked := (cb_data cb = final_lock)\<rparr>\<rparr> \<and>
   fsm (snd (final_lock_unlock e cb s)) = fsm s"
  by (simp add: final_lock_unlock_def run_simps Let_def admin_restrictions_menu_frame
      split: option.splits)

lemma on_chat_member_updated_effect:
  "pending_reviews (bot_data (snd (on_chat_member_updated e u s))) = pending_reviews (bot_data s) \<and>
   settings (bot_data (snd (on_chat_member_updated e u s))) = settings (bot_data s) \<and>
   user_last_review_time (bot_data (snd (on_chat_member_updated e u s)))
     = user_last_review_time (bot_data s) \<and>
   fsm (snd (on_chat_member_updated e u s)) = fsm s"
  by (simp add: on_chat_member_updated_def run_simps Let_def split: option.splits)

lemma approve_review_fsm:
  "fsm (snd (approve_review e cb i s)) = (fsm s)(cb_key cb := idle)"
  by (simp add: approve_review_def run_simps show_pending_reviews_frame split: option.splits)

lemma approve_review_rest:
  "settings (bot_data (snd (approve_review e cb i s))) = settings (bot_data s) \<and>
   groups (bot_data (snd (approve_review e cb i s))) = groups (bot_data s) \<and>
   main_group_id (bot_data (snd (approve_review e cb i s))) = main_group_id (bot_data s) \<and>
   user_last_review_time (bot_data (snd (approve_review e cb i s)))
     = user_last_review_time (bot_data s)"
  by (simp add: approve_review_def run_simps show_pending_reviews_frame split: option.splits)

lemma approve_review_distinct:
  "distinct (map fst (pending_reviews (bot_data s))) \<Longrightarrow>
   distinct (map fst (pending_reviews (bot_data (snd (approve_review e cb i s)))))"
  by (simp add: approve_review_def run_simps show_pending_reviews_frame distinct_update
      distinct_delete split: option.splits)

lemma reject_final_noreason_effect:
  "fsm (snd (reject_final_noreason e cb i s)) = (fsm s)(cb_key cb := idle) \<and>
   bot_data (snd (reject_final_noreason e cb i s)) =
     (bot_data s)\<lparr>pending_reviews := AList.delete i (pending_reviews (bot_data s))\<rparr>"
  by (simp add: reject_final_noreason_def run_simps show_pending_reviews_frame delete_absent
      split: option.splits exn.splits)

lemma process_rejection_reason_effect:
  "fsm (snd (process_rejection_reason e m s)) = (fsm s)(msg_key m := idle) \<and>
   bot_data (snd (process_rejection_reason e m s)) =
     (case review_id_to_reject (fsm s (msg_key m)) of
        None \<Rightarrow> bot_data s
      | Some i \<Rightarrow> (bot_data s)\<lparr>pending_reviews := AList.delete i (pending_reviews (bot_data s))\<rparr>)"
  by (simp add: process_rejection_reason_def run_simps cmd_admin_frame delete_absent Let_def
      split: option.splits exn.splits)

section \<open>Leaving a group (claim C10)\<close>

text \<open>
  Claim C10. The final "delete and leave group" action only calls the platform (the
  leave call, the alert with its outcome, the group list): whatever those calls do, the
  in-memory document, the saved document and the conversation states are the ones it
  started with. The registry and the publish target change in the membership handler
  (claim C7).
\<close>

theorem delete_and_leave_group_frame:
  "bot_data (snd (delete_and_leave_group e cb group_id s)) = bot_data s \<and>
   saved (snd (delete_and_leave_group e cb group_id s)) = saved s \<and>
   fsm (snd (delete_and_leave_group e cb group_id s)) = fsm s"
  by (simp add: delete_and_leave_group_def run_simps show_my_groups_frame split: option.splits)

section \<open>Membership changes (claim C7)\<close>

text \<open>
  Claim C7. On a membership update for a group or supergroup: a status of administrator
  or member for a chat that is not in the registry appends it; a status of left or kicked
  for a chat that is in the registry removes every entry with its identifier and clears
  the publish target if it was this chat; nothing else of the document changes. An
  update for any other chat type changes nothing at all.
\<close>

theorem on_chat_member_updated_registry:
  "(upd_chat_type u \<notin> {GROUP, SUPERGROUP} \<longrightarrow> on_chat_member_updated e u s = (None, s)) \<and>
   (upd_chat_type u \<in> {GROUP, SUPERGROUP} \<and> new_status u \<in> {administrator, member} \<and>
    upd_chat_id u \<notin> gid ` set (groups (bot_data s)) \<longrightarrow>
      bot_data (snd (on_chat_member_updated e u s)) =
        (bot_data s)\<lparr>groups := groups (bot_data s)
           @ [\<lparr>gid = upd_chat_id u, title = upd_chat_title u\<rparr>]\<rparr>) \<and>
   (upd_chat_type u \<in> {GROUP, SUPERGROUP} \<and> new_status u \<in> {left, kicked} \<and>
    upd_chat_id u \<in> gid ` set (groups (bot_data s)) \<longrightarrow>
      upd_chat_id u \<notin> gid ` set (groups (bot_data (snd (on_chat_member_updated e u s)))) \<and>
      bot_data (snd (on_chat_member_updated e u s)) =
        (bot_data s)\<lparr>groups := filter (\<lambda>g. gid g \<noteq> upd_chat_id u) (groups (bot_data s)),
                     main_group_id := (if main_group_id (bot_data s) = Some (upd_chat_id u)
                                       then None else main_group_id (bot_data s))\<rparr>)"
  by (auto simp: on_chat_member_updated_def run_simps Let_def image_iff split: option.splits)

text \<open>
  The three cases at concrete updates: a private chat, the bot made administrator of an
  unknown supergroup, and the bot kicked from the group that is the publish target.
\<close>

theorem on_chat_member_updated_registry_witness:
  "on_chat_member_updated (env_at 0 all_ok) (member_upd PRIVATE 7 member) (init default_data)
     = (None, init default_data) \<and>
   groups (bot_data (snd (on_chat_member_updated (env_at 0 all_ok)
       (member_upd SUPERGROUP (-100) administrator) (init default_data))))
     = [\<lparr>gid = -100, title = str_of ''News''\<rparr>] \<and>
   groups (bot_data (snd (on_chat_member_updated (env_at 0 all_ok)
       (member_upd SUPERGROUP (-100) kicked) in_news))) = [] \<and>
   main_group_id (bot_data (snd (on_chat_member_updated (env_at 0 all_ok)
       (member_upd SUPERGROUP (-100) kicked) in_news))) = None"
  using on_chat_member_updated_registry
          [of "member_upd PRIVATE 7 member" "env_at 0 all_ok" "init default_data"]
        on_chat_member_updated_registry
          [of "member_upd SUPERGROUP (-100) administrator" "env_at 0 all_ok" "init default_data"]
        on_chat_member_updated_registry
          [of "member_upd SUPERGROUP (-100) kicked" "env_at 0 all_ok" in_news]
  by (simp add: member_upd_def init_def default_data_def in_news_def)

section \<open>Rejecting a review (claim C2)\<close>

lemma reject_final_noreason_pending:
  "pending_reviews (bot_data (snd (reject_final_noreason e cb i s)))
     = AList.delete i (pending_reviews (bot_data s))"
  by (simp add: reject_final_noreason_def run_simps show_pending_reviews_frame delete_absent
      split: option.splits exn.splits)

lemma process_rejection_reason_pending:
  "review_id_to_reject (fsm s (msg_key m)) = Some i \<Longrightarrow>
   pending_reviews (bot_data (snd (process_rejection_reason e m s)))
     = AList.delete i (pending_reviews (bot_data s))"
  by (simp add: process_rejection_reason_def run_simps cmd_admin_frame delete_absent
      split: option.splits exn.splits)

text \<open>
  Claim C2. Rejecting review \<open>i\<close>, without a reason or with the reason typed for the
  review recorded in the conversation, leaves the pending set as it was with \<open>i\<close>
  popped, so \<open>i\<close> is not pending afterwards. This holds for every behaviour of the
  platform: the notice to the submitter may go through, raise the suppressed
  \<open>TelegramBadRequest\<close>, or raise anything else.
\<close>

theorem reject_removes:
  "(let s' = snd (reject_final_noreason e cb i s) in
      pending_reviews (bot_data s') = AList.delete i (pending_reviews (bot_data s)) \<and>
      map_of (pending_reviews (bot_data s')) i = None) \<and>
   (review_id_to_reject (fsm s (msg_key m)) = Some i \<longrightarrow>
     (let s' = snd (process_rejection_reason e m s) in
        pending_reviews (bot_data s') = AList.delete i (pending_reviews (bot_data s)) \<and>
        map_of (pending_reviews (bot_data s')) i = None))"
  by (simp add: Let_def reject_final_noreason_pending process_rejection_reason_pending
      delete_conv')

text \<open>
  Review 5 is pending and the notice to its submitter raises: both paths leave nothing
  pending.
\<close>

theorem reject_removes_witness:
  "review_id_to_reject (fsm (rejecting 5) (msg_key (text_msg 9 1 boss ''Spam''))) = Some 5 \<and>
   pending_reviews (bot_data (snd (reject_final_noreason (env_at 0 all_fail)
       (press 1 boss (reject_final_noreason_n 5)) 5 (rejecting 5)))) = [] \<and>
   pending_reviews (bot_data (snd (process_rejection_reason (env_at 0 all_fail)
       (text_msg 9 1 boss ''Spam'') (rejecting 5)))) = []"
  using reject_removes [of "env_at 0 all_fail" "press 1 boss (reject_final_noreason_n 5)" 5
                           "rejecting 5" "text_msg 9 1 boss ''Spam''"]
  by (simp add: Let_def rejecting_def with_pending_def init_def default_data_def msg_key_def
      text_msg_def boss_def)

section \<open>Submitting a review (claim C3)\<close>

lemma process_review_rejected:
  assumes "(if photo m \<noteq> [] then caption m else msg_text m) = Some t"
    and "length t \<le> 9 \<or> 51 \<le> length t"
  shows "process_review e m s =
           call e (answer (chat_id m) (if t = [] then ErrNoCaption else ErrLength) []) s"
  using assms by (auto simp: process_review_def)

lemma process_review_accepted:
  assumes "(if photo m \<noteq> [] then caption m else msg_text m) = Some t"
    and "10 \<le> length t" "length t \<le> 50"
  shows "bot_data (snd (process_review e m s)) =
           (bot_data s)\<lparr>pending_reviews :=
              AList.update (message_id m) (new_review m t) (pending_reviews (bot_data s)),
            user_last_review_time :=
              (user_last_review_time (bot_data s))(uid (from_user m) \<mapsto> now e)\<rparr>"
    and "fsm (snd (process_review e m s)) = (fsm s)(msg_key m := idle)"
  using assms
  by (auto simp: process_review_def run_simps cmd_start_frame split: option.splits)

text \<open>
  Claim C3. Let \<open>t\<close> be the submitted text: the caption when the message has a photo,
  the message text otherwise. If \<open>t\<close> has 10 to 50 characters, the review is stored
  under the message identifier with \<open>t\<close> as its text, the submitter's cooldown entry is
  stamped and the conversation is idle. If \<open>t\<close> has at most 9 or at least 51
  characters, the handler does nothing but send an error message to the chat: the
  document (pending reviews and cooldown table included), the saved document and the
  conversation states are unchanged.
\<close>

theorem process_review_length:
  "(if photo m \<noteq> [] then caption m else msg_text m) = Some t \<Longrightarrow>
   (10 \<le> length t \<and> length t \<le> 50 \<longrightarrow>
      map_of (pending_reviews (bot_data (snd (process_review e m s)))) (message_id m)
        = Some (new_review m t) \<and>
      review_text (new_review m t) = t \<and>
      user_last_review_time (bot_data (snd (process_review e m s))) (uid (from_user m))
        = Some (now e) \<and>
      fsm (snd (process_review e m s)) (msg_key m) = idle) \<and>
   (length t \<le> 9 \<or> 51 \<le> length t \<longrightarrow>
      process_review e m s =
        call e (answer (chat_id m) (if t = [] then ErrNoCaption else ErrLength) []) s \<and>
      bot_data (snd (process_review e m s)) = bot_data s \<and>
      saved (snd (process_review e m s)) = saved s \<and>
      fsm (snd (process_review e m s)) = fsm s)"
  by (auto simp: process_review_accepted process_review_rejected update_conv' new_review_def
      call_def split: option.splits)

text \<open>
  A text of 24 characters is stored; texts of 9 and of 51 characters leave the document
  as it was.
\<close>

theorem process_review_length_witness:
  "length (str_of ''Great service, loved it!'') = 24 \<and>
   map_of (pending_reviews (bot_data (snd (process_review (env_at 100 all_ok)
       (text_msg 5 7 alice ''Great service, loved it!'') (init default_data))))) 5
     = Some alice_review \<and>
   bot_data (snd (process_review (env_at 100 all_ok) (text_msg 6 7 alice ''Too short'')
       (init default_data))) = default_data \<and>
   bot_data (snd (process_review (env_at 100 all_ok)
       (text_msg 6 7 alice ''This review is one character too long to be stored.'')
       (init default_data))) = default_data"
  using process_review_length [of "text_msg 5 7 alice ''Great service, loved it!''"
          "str_of ''Great service, loved it!''" "env_at 100 all_ok" "init default_data"]
        process_review_length [of "text_msg 6 7 alice ''Too short''" "str_of ''Too short''"
          "env_at 100 all_ok" "init default_data"]
        process_review_length [of
          "text_msg 6 7 alice ''This review is one character too long to be stored.''"
          "str_of ''This review is one character too long to be stored.''"
          "env_at 100 all_ok" "init default_data"]
  by (simp add: text_msg_def str_of_def alice_review_def init_def new_review_def call_def
      env_at_def all_ok_def)

section \<open>Approving a review (claim C1)\<close>

lemma approve_review_rolled_back:
  assumes "map_of (pending_reviews (bot_data s)) i = Some r"
    and "main_group_id (bot_data s) = Some g" "g \<noteq> 0"
    and "api e (forward_message g (user_id r) i) = Some x"
    and "api e (callback_answer (ForwardError x)) = None"
  shows "map_of (pending_reviews (bot_data (snd (approve_review e cb i s))))
           = map_of (pending_reviews (bot_data s))"
  using assms
  by (auto simp: approve_review_def run_simps show_pending_reviews_frame update_conv'
      delete_conv' fun_eq_iff split: option.splits)

lemma approve_review_published:
  assumes "map_of (pending_reviews (bot_data s)) i = Some r"
    and "main_group_id (bot_data s) = Some g" "g \<noteq> 0"
    and "api e (forward_message g (user_id r) i) = None"
    and "api e (send_message (user_id r) ApprovedPublished) = None"
    and "api e (callback_answer Forwarded) = None"
  shows "pending_reviews (bot_data (snd (approve_review e cb i s)))
           = AList.delete i (pending_reviews (bot_data s))"
  using assms
  by (auto simp: approve_review_def run_simps show_pending_reviews_frame split: option.splits)

text \<open>
  Claim C1 says that an approved review stays removed once forwarding succeeds. Review 5
  of user 7 is pending and group -100 is the publish target; the forward goes through and
  the notice to the submitter raises. The \<open>except\<close> branch, written for a failed
  forward, runs: the review has been forwarded to the group and is pending again.
\<close>

theorem approve_review_notice_failure:
  "(let s' = snd (approve_review (env_at 0 notice_fails) (press 1 boss (approve_n 5)) 5
                   (with_pending [(5, alice_review)] (Some (-100))))
    in forward_message (-100) 7 5 \<in> set (sent s') \<and>
       map_of (pending_reviews (bot_data s')) 5 = Some alice_review)"
  by (simp add: approve_review_def run_simps show_pending_reviews_frame with_pending_def
      init_def default_data_def env_at_def notice_fails_def press_def alice_review_def
      new_review_def text_msg_def alice_def boss_def cb_key_def show_pending_reviews_def)

end
